theory Spec2Isabelle
  imports Complex_Main
begin

section \<open>CineMatch: the recommendation engine of app.py\<close>

text \<open>
  The module keeps two values for the life of the process: the catalog \<open>movies\<close> (a pandas
  DataFrame) and the matrix \<open>similarity\<close> (a two-dimensional numpy array).  The functions
  \<open>load_data\<close>, \<open>recommend_movie\<close> and \<open>fetch_poster\<close> are embedded below; the Streamlit
  page around them is not.

  Scores are numpy floats.  They are modelled as real numbers: the model covers finite
  scores, on which Python's comparison is the order of the reals, and leaves NaN out.
\<close>

subsection \<open>Exceptions\<close>

datatype py_error =
    IndexError
  | ValueError
  | RequestException
  | JSONDecodeError
  | AttributeError
  | TypeError

subsection \<open>The catalog: a DataFrame\<close>

text \<open>
  A DataFrame has an index (one label per row, here integers) beside its columns.  The code
  runs past line 90 only when the column \<open>title\<close> exists; the column \<open>id\<close> is optional
  (\<open>'id' in movies.columns\<close>), and one of its cells may be missing (NaN, for which
  \<open>pd.isna\<close> is true): \<open>None\<close> below.  A cell that is present holds an integer, the
  value \<open>int(mid)\<close> has.
\<close>

record dataframe =
  df_index :: "int list"
  df_title :: "string list"
  df_id :: "int option list option"

definition n_rows :: "dataframe \<Rightarrow> nat" where
  "n_rows df = length (df_title df)"

text \<open>Every column and the index have one entry per row.\<close>

definition wf_frame :: "dataframe \<Rightarrow> bool" where
  "wf_frame df \<longleftrightarrow>
     length (df_index df) = n_rows df \<and>
     (case df_id df of None \<Rightarrow> True | Some col \<Rightarrow> length col = n_rows df)"

text \<open>The index pandas gives a frame built without one: \<open>RangeIndex(0, N)\<close>.\<close>

definition range_index :: "dataframe \<Rightarrow> bool" where
  "range_index df \<longleftrightarrow> df_index df = map int [0..<n_rows df]"

text \<open>
  \<open>movies.iloc[i]\<close>: the row at position \<open>i\<close> (never a label), IndexError out of range.
  The row carries its title and, when the frame has the column, its \<open>id\<close> cell.
\<close>

record movie_row =
  row_title :: string
  row_id :: "int option option"

definition iloc :: "dataframe \<Rightarrow> nat \<Rightarrow> py_error + movie_row" where
  "iloc df i =
     (if i < n_rows df
      then Inr \<lparr>row_title = df_title df ! i,
                row_id = (case df_id df of None \<Rightarrow> None | Some col \<Rightarrow> Some (col ! i))\<rparr>
      else Inl IndexError)"

subsection \<open>The similarity matrix: a two-dimensional array\<close>

text \<open>
  The column count is kept beside the rows, as numpy's \<open>shape\<close> does: an array with no row
  still has one.
\<close>

record ndarray =
  ncols :: nat
  nd_rows :: "real list list"

definition wf_array :: "ndarray \<Rightarrow> bool" where
  "wf_array a \<longleftrightarrow> list_all (\<lambda>r. length r = ncols a) (nd_rows a)"

definition shape :: "ndarray \<Rightarrow> nat \<times> nat" where
  "shape a = (length (nd_rows a), ncols a)"

text \<open>
  \<open>a[idx]\<close> for an integer \<open>idx\<close>: a negative index counts from the last row, and an index
  outside \<open>-n .. n-1\<close> raises IndexError.
\<close>

definition np_getitem :: "ndarray \<Rightarrow> int \<Rightarrow> py_error + real list" where
  "np_getitem a idx =
     (let n = int (length (nd_rows a)) in
      if - n \<le> idx \<and> idx < n
      then Inr (nd_rows a ! nat (if idx < 0 then idx + n else idx))
      else Inl IndexError)"

text \<open>
  \<open>np.concatenate((part0, part1, part2), axis=0)\<close>: the rows of the three arrays in
  order; ValueError when the column counts differ.
\<close>

definition np_concatenate :: "ndarray \<Rightarrow> ndarray \<Rightarrow> ndarray \<Rightarrow> py_error + ndarray" where
  "np_concatenate part0 part1 part2 =
     (if ncols part1 = ncols part0 \<and> ncols part2 = ncols part0
      then Inr \<lparr>ncols = ncols part0,
                nd_rows = nd_rows part0 @ nd_rows part1 @ nd_rows part2\<rparr>
      else Inl ValueError)"

subsection \<open>\<open>load_data\<close>\<close>

record app_state =
  movies :: dataframe
  similarity :: ndarray

text \<open>
  The four unpickled objects are the arguments.  Nothing but the concatenation can fail:
  the function compares no shape with another.
\<close>

definition load_data ::
  "dataframe \<Rightarrow> ndarray \<Rightarrow> ndarray \<Rightarrow> ndarray \<Rightarrow> py_error + app_state" where
  "load_data movies_pkl part0 part1 part2 =
     (case np_concatenate part0 part1 part2 of
        Inl e \<Rightarrow> Inl e
      | Inr sim \<Rightarrow> Inr \<lparr>movies = movies_pkl, similarity = sim\<rparr>)"

subsection \<open>Python's \<open>enumerate\<close>, \<open>sorted\<close> and slices\<close>

definition py_enumerate :: "'a list \<Rightarrow> (nat \<times> 'a) list" where
  "py_enumerate xs = zip [0..<length xs] xs"

text \<open>
  \<open>sorted(xs, key=f, reverse=True)\<close> is a stable sort into descending keys: elements with
  equal keys stay in their order in \<open>xs\<close>.  Insertion from the right end does the same:
  an element goes in front of the first one whose key is not greater.
\<close>

fun insort_rev :: "('a \<Rightarrow> 'k::linorder) \<Rightarrow> 'a \<Rightarrow> 'a list \<Rightarrow> 'a list" where
  "insort_rev f x [] = [x]"
| "insort_rev f x (y # ys) =
     (if f y \<le> f x then x # y # ys else y # insort_rev f x ys)"

definition py_sorted_rev :: "('a \<Rightarrow> 'k::linorder) \<Rightarrow> 'a list \<Rightarrow> 'a list" where
  "py_sorted_rev f xs = foldr (insort_rev f) xs []"

text \<open>
  \<open>xs[start:stop]\<close>: a negative bound counts from the end, and both bounds are clamped
  to \<open>0 .. len(xs)\<close>.
\<close>

definition py_bound :: "nat \<Rightarrow> int \<Rightarrow> nat" where
  "py_bound n i = (if i < 0 then nat (max 0 (i + int n)) else min (nat i) n)"

definition py_slice :: "'a list \<Rightarrow> int \<Rightarrow> int \<Rightarrow> 'a list" where
  "py_slice xs start stop =
     drop (py_bound (length xs) start) (take (py_bound (length xs) stop) xs)"

subsection \<open>\<open>recommend_movie\<close>\<close>

text \<open>
  Line 116: \<open>movies[movies['title'] == movie_name].index[0]\<close>.  The mask keeps the rows
  whose title is equal to the name, in order; \<open>.index[0]\<close> is the label of the first of
  them, and IndexError when there is none.
\<close>

definition resolve_idx :: "dataframe \<Rightarrow> string \<Rightarrow> py_error + int" where
  "resolve_idx df movie_name =
     (case filter (\<lambda>(label, t). t = movie_name) (zip (df_index df) (df_title df)) of
        [] \<Rightarrow> Inl IndexError
      | (label, t) # rest \<Rightarrow> Inr label)"

text \<open>Lines 120 to 122 before the slice: the candidates in rank order.\<close>

definition ranked :: "real list \<Rightarrow> (nat \<times> real) list" where
  "ranked distances = py_sorted_rev snd (py_enumerate distances)"

text \<open>
  Lines 126 to 128, one pass of the loop: the tuple for \<open>(i, score)\<close>, given the row
  \<open>movies.iloc[i]\<close>.
\<close>

type_synonym rec_result = "string \<times> real \<times> int"

definition result_of_row :: "movie_row \<Rightarrow> real \<Rightarrow> rec_result" where
  "result_of_row mrow score =
     (let mid = (case row_id mrow of None \<Rightarrow> Some (- 1) | Some cell \<Rightarrow> cell)
      in (row_title mrow, score, (case mid of None \<Rightarrow> - 1 | Some v \<Rightarrow> v)))"

fun build_results :: "dataframe \<Rightarrow> (nat \<times> real) list \<Rightarrow> py_error + rec_result list" where
  "build_results df [] = Inr []"
| "build_results df ((i, score) # S) =
     (case iloc df i of
        Inl e \<Rightarrow> Inl e
      | Inr mrow \<Rightarrow>
          (case build_results df S of
             Inl e \<Rightarrow> Inl e
           | Inr results \<Rightarrow> Inr (result_of_row mrow score # results)))"

text \<open>
  Only line 116 is inside the \<open>try\<close>: an exception there gives the empty list, one from
  \<open>similarity[idx]\<close> or \<open>movies.iloc[i]\<close> reaches the caller.
\<close>

definition recommend_movie :: "app_state \<Rightarrow> string \<Rightarrow> int \<Rightarrow> py_error + rec_result list" where
  "recommend_movie st movie_name top_n =
     (case resolve_idx (movies st) movie_name of
        Inl e \<Rightarrow> Inr []
      | Inr idx \<Rightarrow>
          (case np_getitem (similarity st) idx of
             Inl e \<Rightarrow> Inl e
           | Inr distances \<Rightarrow>
               build_results (movies st) (py_slice (ranked distances) 1 (top_n + 1))))"

subsection \<open>\<open>fetch_poster\<close>\<close>

text \<open>
  The network is a parameter: \<open>net url\<close> is what \<open>requests.get(url, timeout=5)\<close> does,
  either an exception of the transport (a timeout included) or a response with its status
  code and its body as \<open>resp.json()\<close> reads it (\<open>None\<close> when that call raises).  JSON
  numbers are integers here; \<open>truthy\<close> is Python's truth value of a parsed JSON value.
\<close>

datatype json =
    JNull
  | JBool bool
  | JNum int
  | JStr string
  | JArr "json list"
  | JObj "(string \<times> json) list"

datatype http_outcome =
    Transport_failure
  | Response int "json option"

definition truthy :: "json \<Rightarrow> bool" where
  "truthy v =
     (case v of
        JNull \<Rightarrow> False
      | JBool b \<Rightarrow> b
      | JNum n \<Rightarrow> n \<noteq> 0
      | JStr s \<Rightarrow> s \<noteq> []
      | JArr xs \<Rightarrow> xs \<noteq> []
      | JObj kvs \<Rightarrow> kvs \<noteq> [])"

text \<open>The decimal digits an f-string writes for an integer.\<close>

fun str_nat :: "nat \<Rightarrow> string" where
  "str_nat n =
     (if n < 10 then [''0123456789'' ! n]
      else str_nat (n div 10) @ [''0123456789'' ! (n mod 10)])"

declare str_nat.simps [simp del]

definition str_int :: "int \<Rightarrow> string" where
  "str_int i = (if i < 0 then CHR ''-'' # str_nat (nat (- i)) else str_nat (nat i))"

definition request_url :: "int \<Rightarrow> string \<Rightarrow> string" where
  "request_url tmdb_id api_key =
     ''https://api.themoviedb.org/3/movie/'' @ str_int tmdb_id @ ''?api_key='' @ api_key
       @ ''&language=en-US''"

text \<open>
  The body of the \<open>try\<close>.  \<open>data.get\<close> exists on a dict only (AttributeError
  otherwise), and \<open>"https://image.tmdb.org/t/p/w500" + path\<close> needs a string (TypeError
  otherwise).
\<close>

definition fetch_poster_try :: "(string \<Rightarrow> http_outcome) \<Rightarrow> int \<Rightarrow> string \<Rightarrow> py_error + string" where
  "fetch_poster_try net tmdb_id api_key =
     (case net (request_url tmdb_id api_key) of
        Transport_failure \<Rightarrow> Inl RequestException
      | Response status_code body \<Rightarrow>
          if status_code = 200 then
            (case body of
               None \<Rightarrow> Inl JSONDecodeError
             | Some (JObj kvs) \<Rightarrow>
                 (let path = (case map_of kvs ''poster_path'' of None \<Rightarrow> JNull | Some v \<Rightarrow> v) in
                  if truthy path then
                    (case path of
                       JStr s \<Rightarrow> Inr (''https://image.tmdb.org/t/p/w500'' @ s)
                     | _ \<Rightarrow> Inl TypeError)
                  else Inr [])
             | Some _ \<Rightarrow> Inl AttributeError)
          else Inr [])"

text \<open>
  The result is the returned string with the list of the URLs requested.  The guard of
  line 133 is outside the \<open>try\<close>; \<open>except Exception\<close> turns every exception of the body
  into the empty string.
\<close>

definition fetch_poster ::
  "(string \<Rightarrow> http_outcome) \<Rightarrow> int \<Rightarrow> string \<Rightarrow> py_error + (string \<times> string list)" where
  "fetch_poster net tmdb_id api_key =
     (if tmdb_id < 0 \<or> api_key = [] then Inr ([], [])
      else
        (case fetch_poster_try net tmdb_id api_key of
           Inl e \<Rightarrow> Inr ([], [request_url tmdb_id api_key])
         | Inr url \<Rightarrow> Inr (url, [request_url tmdb_id api_key])))"

subsection \<open>The vocabulary of the properties\<close>


subsection \<open>Example data\<close>

text \<open>
  A catalog of four movies whose row for \<open>A\<close> is the one of the specification's example.
  The row of \<open>B\<close> scores \<open>A\<close> above \<open>B\<close> itself, and \<open>B\<close> has no id.
\<close>

definition example_state :: app_state where
  "example_state =
     \<lparr>movies = \<lparr>df_index = [0, 1, 2, 3],
                 df_title = [''A'', ''B'', ''C'', ''D''],
                 df_id = Some [Some 10, None, Some 30, Some 40]\<rparr>,
      similarity = \<lparr>ncols = 4,
                     nd_rows = [[1, 9 / 10, 95 / 100, 2 / 10],
                                [9 / 10, 8 / 10, 5 / 10, 5 / 10],
                                [95 / 100, 5 / 10, 1, 1 / 10],
                                [2 / 10, 5 / 10, 1 / 10, 1]]\<rparr>\<rparr>"

text \<open>
  A catalog that was filtered before it was pickled: the row labelled 1 is gone, the
  labels of the others stayed (pandas keeps them), and the matrix has one row per movie
  left.
\<close>

definition filtered_state :: app_state where
  "filtered_state =
     \<lparr>movies = \<lparr>df_index = [0, 2, 3, 4],
                 df_title = [''A'', ''B'', ''B'', ''C''],
                 df_id = None\<rparr>,
      similarity = \<lparr>ncols = 4,
                     nd_rows = [[1, 9 / 10, 95 / 100, 2 / 10],
                                [9 / 10, 1, 5 / 10, 5 / 10],
                                [95 / 100, 5 / 10, 1, 1 / 10],
                                [2 / 10, 5 / 10, 1 / 10, 1]]\<rparr>\<rparr>"

text \<open>A chunk of one row and four columns.\<close>

definition one_row_chunk :: ndarray where
  "one_row_chunk = \<lparr>ncols = 4, nd_rows = [[1, 9 / 10, 95 / 100, 2 / 10]]\<rparr>"

text \<open>
  Three networks: one that is unreachable, one that answers 404, and one that answers
  200 with a poster path.
\<close>

definition offline :: "string \<Rightarrow> http_outcome" where
  "offline url = Transport_failure"

definition not_found :: "string \<Rightarrow> http_outcome" where
  "not_found url = Response 404 (Some (JObj [(''status_code'', JNum 34)]))"

definition with_poster :: "string \<Rightarrow> http_outcome" where
  "with_poster url = Response 200 (Some (JObj [(''id'', JNum 603), (''poster_path'', JStr ''/a.jpg'')]))"

section \<open>Auxiliary facts\<close>

lemma py_enumerate_length: "length (py_enumerate xs) = length xs"
  by (simp add: py_enumerate_def)

lemma insort_rev_set: "set (insort_rev f x ys) = insert x (set ys)"
  by (induction ys) auto

lemma insort_rev_length: "length (insort_rev f x ys) = Suc (length ys)"
  by (induction ys) auto

lemma insort_rev_distinct: "distinct (insort_rev f x ys) \<longleftrightarrow> x \<notin> set ys \<and> distinct ys"
  by (induction ys) (auto simp: insort_rev_set)

lemma py_sorted_rev_Cons: "py_sorted_rev f (x # xs) = insort_rev f x (py_sorted_rev f xs)"
  by (simp add: py_sorted_rev_def)

lemma py_sorted_rev_Nil: "py_sorted_rev f [] = []"
  by (simp add: py_sorted_rev_def)

lemma py_sorted_rev_set: "set (py_sorted_rev f xs) = set xs"
  by (induction xs) (simp_all add: py_sorted_rev_Nil py_sorted_rev_Cons insort_rev_set)

lemma py_sorted_rev_length: "length (py_sorted_rev f xs) = length xs"
  by (induction xs) (simp_all add: py_sorted_rev_Nil py_sorted_rev_Cons insort_rev_length)

lemma py_sorted_rev_distinct: "distinct (py_sorted_rev f xs) \<longleftrightarrow> distinct xs"
  by (induction xs)
    (simp_all add: py_sorted_rev_Nil py_sorted_rev_Cons insort_rev_distinct py_sorted_rev_set)

text \<open>
  \<open>py_sorted_rev\<close> is the stable sort into descending keys, which is what Python
  documents of \<open>sorted\<close> with \<open>reverse=True\<close>: the keys never increase, and the
  elements of any one key keep the order they had.
\<close>

lemma insort_rev_descending:
  "sorted_wrt (\<lambda>a b. f b \<le> f a) ys \<Longrightarrow> sorted_wrt (\<lambda>a b. f b \<le> f a) (insort_rev f x ys)"
proof (induction ys)
  case Nil
  then show ?case by simp
next
  case (Cons y ys)
  then show ?case by (auto simp: insort_rev_set intro: order_trans)
qed

lemma py_sorted_rev_descending: "sorted_wrt (\<lambda>a b. f b \<le> f a) (py_sorted_rev f xs)"
  by (induction xs) (simp_all add: py_sorted_rev_Nil py_sorted_rev_Cons insort_rev_descending)

lemma insort_rev_filter:
  "filter (\<lambda>y. f y = k) (insort_rev f x ys) =
     (if f x = k then x # filter (\<lambda>y. f y = k) ys else filter (\<lambda>y. f y = k) ys)"
  by (induction ys) auto

lemma py_sorted_rev_stable:
  "filter (\<lambda>y. f y = k) (py_sorted_rev f xs) = filter (\<lambda>y. f y = k) xs"
  by (induction xs) (simp_all add: py_sorted_rev_Nil py_sorted_rev_Cons insort_rev_filter)






lemma py_enumerate_set: "(i, s) \<in> set (py_enumerate xs) \<longleftrightarrow> i < length xs \<and> s = xs ! i"
proof
  assume "(i, s) \<in> set (py_enumerate xs)"
  then show "i < length xs \<and> s = xs ! i"
    by (auto simp: py_enumerate_def set_zip)
next
  assume "i < length xs \<and> s = xs ! i"
  then have "i < length xs" and "[0..<length xs] ! i = i" and "xs ! i = s" by simp_all
  then show "(i, s) \<in> set (py_enumerate xs)"
    unfolding py_enumerate_def set_zip by force
qed

lemma py_enumerate_distinct: "distinct (py_enumerate xs)"
  by (simp add: py_enumerate_def distinct_zipI1)

lemma ranked_length: "length (ranked d) = length d"
  by (simp add: ranked_def py_sorted_rev_length py_enumerate_length)

lemma ranked_set: "(i, s) \<in> set (ranked d) \<longleftrightarrow> i < length d \<and> s = d ! i"
  by (simp add: ranked_def py_sorted_rev_set py_enumerate_set)

lemma ranked_distinct: "distinct (ranked d)"
  by (simp add: ranked_def py_sorted_rev_distinct py_enumerate_distinct)


lemma py_slice_top: "0 \<le> top_n \<Longrightarrow> py_slice xs 1 (top_n + 1) = take (nat top_n) (drop 1 xs)"
  by (cases xs) (auto simp: py_slice_def py_bound_def drop_take min_def nat_add_distrib)

lemma py_slice_subset: "set (py_slice xs a b) \<subseteq> set xs"
  unfolding py_slice_def by (meson set_drop_subset set_take_subset subset_trans)

lemma resolve_idx_absent:
  "movie_name \<notin> set (df_title df) \<Longrightarrow> resolve_idx df movie_name = Inl IndexError"
proof -
  assume a: "movie_name \<notin> set (df_title df)"
  have "filter (\<lambda>(label, t). t = movie_name) (zip (df_index df) (df_title df)) = []"
    using a by (auto simp: filter_empty_conv dest: set_zip_rightD)
  then show ?thesis by (simp add: resolve_idx_def)
qed

lemma first_match:
  "name \<in> set ts \<Longrightarrow>
   \<exists>p rest. p < length ts \<and> ts ! p = name \<and> (\<forall>q<p. ts ! q \<noteq> name) \<and>
     filter (\<lambda>(label, t). t = name) (zip (map int [k..<k + length ts]) ts)
       = (int (k + p), name) # rest"
proof (induction ts arbitrary: k)
  case Nil
  then show ?case by simp
next
  case (Cons t ts)
  have upt: "[k..<k + length (t # ts)] = k # [Suc k..<Suc k + length ts]"
    using upt_conv_Cons[of k "k + Suc (length ts)"] by simp
  show ?case
  proof (cases "t = name")
    case True
    then show ?thesis unfolding upt by (intro exI[of _ 0]) simp
  next
    case False
    with Cons.prems have "name \<in> set ts" by simp
    from Cons.IH[OF this, of "Suc k"] obtain p rest where
      p: "p < length ts" "ts ! p = name" "\<forall>q<p. ts ! q \<noteq> name"
      "filter (\<lambda>(label, t). t = name) (zip (map int [Suc k..<Suc k + length ts]) ts)
         = (int (Suc k + p), name) # rest"
      by blast
    have "\<forall>q<Suc p. (t # ts) ! q \<noteq> name"
      using False p(3) by (auto simp: nth_Cons split: nat.splits)
    with p False show ?thesis
      unfolding upt by (intro exI[of _ "Suc p"] exI[of _ rest]) simp
  qed
qed

lemma resolve_idx_range:
  assumes "range_index df" and "movie_name \<in> set (df_title df)"
  shows "\<exists>p<n_rows df. resolve_idx df movie_name = Inr (int p) \<and>
           df_title df ! p = movie_name \<and> (\<forall>q<p. df_title df ! q \<noteq> movie_name)"
proof -
  from first_match[OF assms(2), of 0] obtain p rest where
    p: "p < length (df_title df)" "df_title df ! p = movie_name"
       "\<forall>q<p. df_title df ! q \<noteq> movie_name"
       "filter (\<lambda>(label, t). t = movie_name)
          (zip (map int [0..<0 + length (df_title df)]) (df_title df))
        = (int (0 + p), movie_name) # rest"
    by blast
  from p(4) assms(1) have "resolve_idx df movie_name = Inr (int p)"
    by (simp add: resolve_idx_def range_index_def n_rows_def)
  with p show ?thesis by (auto simp: n_rows_def)
qed

lemma first_match_label:
  "length ls = length ts \<Longrightarrow> name \<in> set ts \<Longrightarrow>
   \<exists>p rest. p < length ts \<and> ts ! p = name \<and> (\<forall>q<p. ts ! q \<noteq> name) \<and>
     filter (\<lambda>(label, t). t = name) (zip ls ts) = (ls ! p, name) # rest"
proof (induction ts arbitrary: ls)
  case Nil
  then show ?case by simp
next
  case (Cons t ts)
  from Cons.prems(1) obtain l ls' where ls: "ls = l # ls'" "length ls' = length ts"
    by (cases ls) auto
  show ?case
  proof (cases "t = name")
    case True
    with ls show ?thesis by (intro exI[of _ 0]) simp
  next
    case False
    with Cons.prems have "name \<in> set ts" by simp
    from Cons.IH[OF ls(2) this] obtain p rest where
      p: "p < length ts" "ts ! p = name" "\<forall>q<p. ts ! q \<noteq> name"
         "filter (\<lambda>(label, t). t = name) (zip ls' ts) = (ls' ! p, name) # rest"
      by blast
    have "\<forall>q<Suc p. (t # ts) ! q \<noteq> name"
      using False p(3) by (auto simp: nth_Cons split: nat.splits)
    with p False ls show ?thesis
      by (intro exI[of _ "Suc p"] exI[of _ rest]) simp
  qed
qed

text \<open>What line 116 resolves on any frame: the label of the first row with the title.\<close>

lemma resolve_idx_first_label:
  assumes "length (df_index df) = n_rows df" and "movie_name \<in> set (df_title df)"
  shows "\<exists>p<n_rows df. df_title df ! p = movie_name \<and>
           (\<forall>q<p. df_title df ! q \<noteq> movie_name) \<and>
           resolve_idx df movie_name = Inr (df_index df ! p)"
proof -
  from assms(1) have "length (df_index df) = length (df_title df)" by (simp add: n_rows_def)
  from first_match_label[OF this assms(2)] obtain p rest where
    p: "p < length (df_title df)" "df_title df ! p = movie_name"
       "\<forall>q<p. df_title df ! q \<noteq> movie_name"
       "filter (\<lambda>(label, t). t = movie_name) (zip (df_index df) (df_title df))
          = (df_index df ! p, movie_name) # rest"
    by blast
  from p(4) have "resolve_idx df movie_name = Inr (df_index df ! p)"
    by (simp add: resolve_idx_def)
  with p show ?thesis by (auto simp: n_rows_def)
qed

lemma build_results_map:
  "\<forall>c\<in>set S. fst c < n_rows df \<Longrightarrow>
   build_results df S =
     Inr (map (\<lambda>(i, score). (df_title df ! i, score,
            (case df_id df of None \<Rightarrow> - 1
             | Some col \<Rightarrow> (case col ! i of None \<Rightarrow> - 1 | Some v \<Rightarrow> v)))) S)"
proof (induction S)
  case Nil
  then show ?case by simp
next
  case (Cons c S)
  obtain i score where c: "c = (i, score)" by (cases c)
  with Cons show ?case
    by (simp add: iloc_def result_of_row_def split: option.splits)
qed


lemma ranked_fst_distinct: "distinct (map fst (ranked d))"
proof -
  have "inj_on fst (set (ranked d))"
    by (auto simp: inj_on_def ranked_set)
  with ranked_distinct[of d] show ?thesis by (simp add: distinct_map)
qed

lemma ranked_bound: "c \<in> set (ranked d) \<Longrightarrow> fst c < length d"
  by (cases c) (simp add: ranked_set)



lemma nth_append3:
  assumes "i < length xs + length ys + length zs"
  shows "(xs @ ys @ zs) ! i =
           (if i < length xs then xs ! i
            else if i < length xs + length ys then ys ! (i - length xs)
            else zs ! (i - length xs - length ys))"
  by (auto simp: nth_append)

lemma fetch_poster_try_soft:
  "fetch_poster_try net tmdb_id api_key = Inr url \<Longrightarrow>
     url = [] \<or> (\<exists>s. s \<noteq> [] \<and> url = ''https://image.tmdb.org/t/p/w500'' @ s)"
  by (auto simp: fetch_poster_try_def truthy_def Let_def
      split: http_outcome.splits if_splits option.splits json.splits)

lemma recommend_row_found:
  assumes "resolve_idx (movies st) movie_name = Inr idx"
    and "np_getitem (similarity st) idx = Inr distances"
  shows "recommend_movie st movie_name top_n =
           build_results (movies st) (py_slice (ranked distances) 1 (top_n + 1))"
  using assms by (simp add: recommend_movie_def)

lemma recommend_returns:
  assumes "resolve_idx (movies st) movie_name = Inr idx"
    and "np_getitem (similarity st) idx = Inr distances"
    and "length distances \<le> n_rows (movies st)"
  shows "recommend_movie st movie_name top_n =
           Inr (map (\<lambda>(i, score). (df_title (movies st) ! i, score,
                  (case df_id (movies st) of None \<Rightarrow> - 1
                   | Some col \<Rightarrow> (case col ! i of None \<Rightarrow> - 1 | Some v \<Rightarrow> v))))
                (py_slice (ranked distances) 1 (top_n + 1)))"
proof -
  have "\<forall>c\<in>set (py_slice (ranked distances) 1 (top_n + 1)). fst c < n_rows (movies st)"
    using py_slice_subset[of "ranked distances" 1 "top_n + 1"] ranked_bound[of _ distances]
      assms(3) by fastforce
  from build_results_map[OF this] show ?thesis
    by (simp add: recommend_row_found[OF assms(1,2)])
qed

text \<open>
  Where line 120 finds its row, \<open>top_n = 0\<close> gives the empty list, and \<open>top_n \<ge> 1\<close> gives
  the tuples of ranks \<open>1 .. top_n\<close>.
\<close>

lemma recommend_row_found_top_n_zero:
  assumes "resolve_idx (movies st) movie_name = Inr idx"
    and "np_getitem (similarity st) idx = Inr distances"
  shows "recommend_movie st movie_name 0 = Inr []"
  by (simp add: recommend_row_found[OF assms] py_slice_def py_bound_def)

lemma recommend_row_found_ranks:
  assumes "resolve_idx (movies st) movie_name = Inr idx"
    and "np_getitem (similarity st) idx = Inr distances"
    and "length distances \<le> n_rows (movies st)" and "1 \<le> top_n"
  shows "\<exists>out. recommend_movie st movie_name top_n = Inr out \<and>
           length out = min (nat top_n) (length distances - 1) \<and>
           (\<forall>k<length out.
              (case ranked distances ! (k + 1) of (i, score) \<Rightarrow>
                 out ! k = (df_title (movies st) ! i, score,
                   (case df_id (movies st) of None \<Rightarrow> - 1
                    | Some col \<Rightarrow> (case col ! i of None \<Rightarrow> - 1 | Some v \<Rightarrow> v)))) \<and>
              fst (ranked distances ! (k + 1)) \<noteq> fst (ranked distances ! 0))"
proof -
  let ?d = distances
  let ?S = "take (nat top_n) (drop 1 (ranked ?d))"
  let ?f = "\<lambda>(i, score). (df_title (movies st) ! i, score,
                     (case df_id (movies st) of None \<Rightarrow> - 1
                      | Some col \<Rightarrow> (case col ! i of None \<Rightarrow> - 1 | Some v \<Rightarrow> v)))"
  from assms(4) have sl: "py_slice (ranked ?d) 1 (top_n + 1) = ?S"
    by (simp add: py_slice_top)
  have out: "recommend_movie st movie_name top_n = Inr (map ?f ?S)"
    using recommend_returns[OF assms(1-3), of top_n] sl by simp
  have len: "length (map ?f ?S) = min (nat top_n) (length distances - 1)"
    by (simp add: ranked_length)
  have nth: "?S ! k = ranked ?d ! (k + 1)" if "k < length (map ?f ?S)" for k
  proof -
    from that have "Suc 0 \<le> length (ranked ?d)" by (simp, linarith)
    with that show ?thesis by (simp add: nth_drop)
  qed
  have ent: "(case ranked ?d ! (k + 1) of (i, score) \<Rightarrow> map ?f ?S ! k = ?f (i, score))"
    if "k < length (map ?f ?S)" for k
  proof -
    obtain i score where c: "ranked ?d ! (k + 1) = (i, score)"
      by (cases "ranked ?d ! (k + 1)")
    from that have "map ?f ?S ! k = ?f (?S ! k)" by (simp del: nth_take nth_drop)
    with nth[OF that] c show ?thesis by simp
  qed
  have ne: "fst (ranked ?d ! (k + 1)) \<noteq> fst (ranked ?d ! 0)" if "k < length (map ?f ?S)" for k
  proof -
    from that have k: "k + 1 < length (ranked ?d)" by (simp, linarith)
    have "map fst (ranked ?d) ! (k + 1) \<noteq> map fst (ranked ?d) ! 0"
      using ranked_fst_distinct[of ?d] k
      by (metis Suc_eq_plus1 length_map nat.distinct(1) nth_eq_iff_index_eq zero_less_Suc less_trans)
    moreover from k have "0 < length (ranked ?d)" by linarith
    ultimately show ?thesis using k by simp
  qed
  show ?thesis
    apply (rule exI[of _ "map ?f ?S"])
    using out len ent ne by simp
qed

text \<open>The equations that evaluate the model on concrete data.\<close>

lemmas eval_defs =
  recommend_movie_def resolve_idx_def np_getitem_def ranked_def py_sorted_rev_def
  py_enumerate_def py_slice_def py_bound_def iloc_def n_rows_def result_of_row_def
  upt_conv_Cons

section \<open>The claims\<close>

subsection \<open>C1: the output is ranks 1 to \<open>top_n\<close>\<close>

text \<open>
  C1.  \<open>recommend_movie\<close> does not return for every title of the catalog.  On the
  filtered catalog the matrix is \<open>N \<times> N\<close> and \<open>C\<close> is a title, but \<open>C\<close> resolves to the
  label 4 and line 120 raises IndexError, for \<open>top_n = 1\<close> as for \<open>top_n = 12\<close>: there is
  no output to be the ranks \<open>1 .. top_n\<close>.  Where line 120 finds its row, the output is
  those ranks, rank 0 left out by its place (\<open>recommend_row_found_ranks\<close>).
\<close>

theorem recommend_raises_for_catalog_title:
  "''C'' \<in> set (df_title (movies filtered_state)) \<and>
   shape (similarity filtered_state) = (n_rows (movies filtered_state), n_rows (movies filtered_state)) \<and>
   recommend_movie filtered_state ''C'' 1 = Inl IndexError \<and>
   recommend_movie filtered_state ''C'' 12 = Inl IndexError"
  by (simp add: eval_defs shape_def filtered_state_def)

subsection \<open>C2: the output is in score order, ties in position order\<close>



subsection \<open>C3: \<open>load_data\<close> checks no shape\<close>

text \<open>
  C3 does not hold of \<open>load_data\<close>: it has no shape check, and neither has its caller.
  Three chunks of one row and four columns load, beside a catalog of four movies, into a
  matrix of three rows and four columns: not square, and one row short of the catalog.
\<close>

theorem load_data_shape_unchecked_counterexample:
  "(case load_data (movies example_state) one_row_chunk one_row_chunk one_row_chunk of
      Inl e \<Rightarrow> False
    | Inr st \<Rightarrow> shape (similarity st) = (3, 4) \<and> n_rows (movies st) = 4)"
  by (simp add: load_data_def np_concatenate_def one_row_chunk_def shape_def n_rows_def
      example_state_def)

text \<open>
  C3, amended.  \<open>load_data\<close> fails exactly when the column counts of the three chunks
  differ, with the ValueError of \<open>np.concatenate\<close>; the row count is compared with
  nothing.  When it returns, the catalog is the one it was given and the matrix holds the
  rows of the chunks in order, all of them and no other: nothing is cut and nothing is
  padded.
\<close>

theorem load_data_fails_on_column_mismatch_only:
  "(load_data movies_pkl part0 part1 part2 = Inl e \<longleftrightarrow>
      e = ValueError \<and> \<not> (ncols part1 = ncols part0 \<and> ncols part2 = ncols part0)) \<and>
   (load_data movies_pkl part0 part1 part2 = Inr st \<longleftrightarrow>
      (ncols part1 = ncols part0 \<and> ncols part2 = ncols part0) \<and>
      st = \<lparr>movies = movies_pkl,
            similarity = \<lparr>ncols = ncols part0,
                           nd_rows = nd_rows part0 @ nd_rows part1 @ nd_rows part2\<rparr>\<rparr>)"
  by (auto simp: load_data_def np_concatenate_def)

theorem load_data_fails_on_column_mismatch_only_witness:
  "load_data (movies example_state) one_row_chunk \<lparr>ncols = 3, nd_rows = []\<rparr> one_row_chunk
     = Inl ValueError \<and>
   load_data (movies example_state) one_row_chunk \<lparr>ncols = 4, nd_rows = []\<rparr> one_row_chunk
     = Inr \<lparr>movies = movies example_state,
            similarity = \<lparr>ncols = 4,
                           nd_rows = [[1, 9 / 10, 95 / 100, 2 / 10], [1, 9 / 10, 95 / 100, 2 / 10]]\<rparr>\<rparr>"
  using load_data_fails_on_column_mismatch_only[of "movies example_state" one_row_chunk
            "\<lparr>ncols = 3, nd_rows = []\<rparr>" one_row_chunk ValueError]
        load_data_fails_on_column_mismatch_only[of "movies example_state" one_row_chunk
            "\<lparr>ncols = 4, nd_rows = []\<rparr>" one_row_chunk]
  by (simp add: one_row_chunk_def)

subsection \<open>C4: an unknown title gives the empty list\<close>

text \<open>
  C4.  For a title that no row of the catalog has, whatever the state and whatever
  \<open>top_n\<close>, \<open>recommend_movie\<close> returns the empty list and raises nothing.
\<close>

theorem recommend_unknown_title_empty:
  assumes "movie_name \<notin> set (df_title (movies st))"
  shows "recommend_movie st movie_name top_n = Inr []"
  using resolve_idx_absent[OF assms] by (simp add: recommend_movie_def)

theorem recommend_unknown_title_empty_witness:
  "''Z'' \<notin> set (df_title (movies example_state)) \<and>
   recommend_movie example_state ''Z'' 5 = Inr [] \<and>
   recommend_movie filtered_state ''a'' (- 3) = Inr []"
proof -
  have a: "''Z'' \<notin> set (df_title (movies example_state))" by (simp add: example_state_def)
  have b: "''a'' \<notin> set (df_title (movies filtered_state))" by (simp add: filtered_state_def)
  from a recommend_unknown_title_empty[OF a, of 5] recommend_unknown_title_empty[OF b, of "- 3"]
  show ?thesis by (intro conjI)
qed

subsection \<open>C5: the chunks are stacked in order\<close>

text \<open>
  C5.  Chunks of shapes \<open>a \<times> n\<close>, \<open>b \<times> n\<close> and \<open>c \<times> n\<close> load into a matrix of shape
  \<open>(a + b + c) \<times> n\<close>, equal to the single array that holds their rows in order; row
  \<open>i\<close> is the row of the chunk that contains it, and reading it through the matrix
  gives that row.
\<close>

theorem load_data_stacks_chunks:
  assumes "shape part0 = (a, n)" and "shape part1 = (b, n)" and "shape part2 = (c, n)"
  shows "\<exists>st. load_data movies_pkl part0 part1 part2 = Inr st \<and>
           movies st = movies_pkl \<and>
           shape (similarity st) = (a + b + c, n) \<and>
           similarity st = \<lparr>ncols = n, nd_rows = nd_rows part0 @ nd_rows part1 @ nd_rows part2\<rparr> \<and>
           (\<forall>i<a + b + c.
              nd_rows (similarity st) ! i =
                (if i < a then nd_rows part0 ! i
                 else if i < a + b then nd_rows part1 ! (i - a)
                 else nd_rows part2 ! (i - a - b)) \<and>
              np_getitem (similarity st) (int i) = Inr (nd_rows (similarity st) ! i))"
proof -
  from assms have len: "length (nd_rows part0) = a" "length (nd_rows part1) = b"
      "length (nd_rows part2) = c"
    and cols: "ncols part0 = n" "ncols part1 = n" "ncols part2 = n"
    by (simp_all add: shape_def)
  let ?sim = "\<lparr>ncols = n, nd_rows = nd_rows part0 @ nd_rows part1 @ nd_rows part2\<rparr>"
  let ?st = "\<lparr>movies = movies_pkl, similarity = ?sim\<rparr>"
  have ld: "load_data movies_pkl part0 part1 part2 = Inr ?st"
    by (simp add: load_data_def np_concatenate_def cols)
  have sh: "shape ?sim = (a + b + c, n)"
    by (simp add: shape_def len)
  have row: "nd_rows ?sim ! i =
                (if i < a then nd_rows part0 ! i
                 else if i < a + b then nd_rows part1 ! (i - a)
                 else nd_rows part2 ! (i - a - b))" if "i < a + b + c" for i
    using nth_append3[of i "nd_rows part0" "nd_rows part1" "nd_rows part2"] that len by simp
  have get: "np_getitem ?sim (int i) = Inr (nd_rows ?sim ! i)" if "i < a + b + c" for i
    using that len by (simp add: np_getitem_def)
  show ?thesis
    by (rule exI[of _ ?st]) (use ld sh row get in simp)
qed

theorem load_data_stacks_chunks_witness:
  "shape one_row_chunk = (1, 4) \<and>
   (\<exists>st. load_data (movies example_state) one_row_chunk one_row_chunk one_row_chunk = Inr st \<and>
      shape (similarity st) = (1 + 1 + 1, 4) \<and>
      nd_rows (similarity st) ! 2 = nd_rows one_row_chunk ! 0)"
proof -
  have a: "shape one_row_chunk = (1, 4)" by (simp add: shape_def one_row_chunk_def)
  from load_data_stacks_chunks[OF a a a, of "movies example_state"] obtain st where
    st: "load_data (movies example_state) one_row_chunk one_row_chunk one_row_chunk = Inr st"
        "shape (similarity st) = (1 + 1 + 1, 4)"
        "\<forall>i<1 + 1 + 1.
              nd_rows (similarity st) ! i =
                (if i < 1 then nd_rows one_row_chunk ! i
                 else if i < 1 + 1 then nd_rows one_row_chunk ! (i - 1)
                 else nd_rows one_row_chunk ! (i - 1 - 1)) \<and>
              np_getitem (similarity st) (int i) = Inr (nd_rows (similarity st) ! i)"
    by blast
  from st(3) have "nd_rows (similarity st) ! 2 = nd_rows one_row_chunk ! 0"
    by (simp add: numeral_2_eq_2 numeral_3_eq_3)
  with a st(1,2) show ?thesis by blast
qed

subsection \<open>C6: the resolved index is a label\<close>

text \<open>
  C6.  The lookup compares titles for equality and takes the first matching row, but what
  it returns is that row's label.  On the filtered catalog the first \<open>B\<close> stands at
  position 1 and carries the label 2: \<open>recommend_movie\<close> resolves 2 and ranks row 2 of
  the matrix, which belongs to the second \<open>B\<close>.
\<close>

theorem resolve_idx_label_not_position:
  "resolve_idx (movies filtered_state) ''B'' = Inr 2 \<and>
   df_title (movies filtered_state) ! 1 = ''B'' \<and>
   np_getitem (similarity filtered_state) 2 = Inr (nd_rows (similarity filtered_state) ! 2) \<and>
   recommend_movie filtered_state ''B'' 1 = Inr [(''A'', 95 / 100, - 1)]"
  by (simp add: eval_defs filtered_state_def)

subsection \<open>C7: \<open>fetch_poster\<close> fails soft\<close>

text \<open>
  C7.  \<open>fetch_poster\<close> always returns: the empty string or the image base followed by a
  path, after no request or one.  For the id \<open>-1\<close> or an empty key it returns the empty
  string with no request, whatever the network.  Otherwise it returns the empty
  string, after its one request, when the transport fails, when the status is not 200,
  when the body is not JSON, and when the object has no \<open>poster_path\<close> or a null or
  empty one.
\<close>

theorem fetch_poster_never_raises:
  "(\<exists>url reqs. fetch_poster net tmdb_id api_key = Inr (url, reqs) \<and>
      (url = [] \<or> (\<exists>s. s \<noteq> [] \<and> url = ''https://image.tmdb.org/t/p/w500'' @ s)) \<and>
      (reqs = [] \<or> reqs = [request_url tmdb_id api_key])) \<and>
   (tmdb_id = - 1 \<or> api_key = [] \<longrightarrow> fetch_poster net tmdb_id api_key = Inr ([], [])) \<and>
   (0 \<le> tmdb_id \<and> api_key \<noteq> [] \<and>
    (net (request_url tmdb_id api_key) = Transport_failure \<or>
     (\<exists>status_code body. net (request_url tmdb_id api_key) = Response status_code body \<and>
        status_code \<noteq> 200) \<or>
     net (request_url tmdb_id api_key) = Response 200 None \<or>
     (\<exists>kvs. net (request_url tmdb_id api_key) = Response 200 (Some (JObj kvs)) \<and>
        (map_of kvs ''poster_path'' = None \<or> map_of kvs ''poster_path'' = Some JNull \<or>
         map_of kvs ''poster_path'' = Some (JStr []))))
    \<longrightarrow> fetch_poster net tmdb_id api_key = Inr ([], [request_url tmdb_id api_key]))"
proof (intro conjI impI)
  show "\<exists>url reqs. fetch_poster net tmdb_id api_key = Inr (url, reqs) \<and>
      (url = [] \<or> (\<exists>s. s \<noteq> [] \<and> url = ''https://image.tmdb.org/t/p/w500'' @ s)) \<and>
      (reqs = [] \<or> reqs = [request_url tmdb_id api_key])"
  proof (cases "fetch_poster_try net tmdb_id api_key")
    case (Inl e)
    then show ?thesis by (simp add: fetch_poster_def)
  next
    case (Inr url)
    with fetch_poster_try_soft[OF Inr] show ?thesis by (auto simp: fetch_poster_def)
  qed
next
  assume "tmdb_id = - 1 \<or> api_key = []"
  then show "fetch_poster net tmdb_id api_key = Inr ([], [])"
    by (auto simp: fetch_poster_def)
next
  assume a: "0 \<le> tmdb_id \<and> api_key \<noteq> [] \<and>
    (net (request_url tmdb_id api_key) = Transport_failure \<or>
     (\<exists>status_code body. net (request_url tmdb_id api_key) = Response status_code body \<and>
        status_code \<noteq> 200) \<or>
     net (request_url tmdb_id api_key) = Response 200 None \<or>
     (\<exists>kvs. net (request_url tmdb_id api_key) = Response 200 (Some (JObj kvs)) \<and>
        (map_of kvs ''poster_path'' = None \<or> map_of kvs ''poster_path'' = Some JNull \<or>
         map_of kvs ''poster_path'' = Some (JStr []))))"
  then have g: "\<not> (tmdb_id < 0 \<or> api_key = [])" by auto
  from a have "fetch_poster_try net tmdb_id api_key = Inr [] \<or>
               (\<exists>e. fetch_poster_try net tmdb_id api_key = Inl e)"
    by (auto simp: fetch_poster_try_def truthy_def)
  with g show "fetch_poster net tmdb_id api_key = Inr ([], [request_url tmdb_id api_key])"
    by (auto simp: fetch_poster_def)
qed

theorem fetch_poster_never_raises_witness:
  "fetch_poster with_poster (- 1) ''0123456789ab'' = Inr ([], []) \<and>
   fetch_poster with_poster 603 [] = Inr ([], []) \<and>
   fetch_poster offline 603 ''0123456789ab'' =
     Inr ([], [''https://api.themoviedb.org/3/movie/603?api_key=0123456789ab&language=en-US'']) \<and>
   fetch_poster not_found 603 ''0123456789ab'' =
     Inr ([], [''https://api.themoviedb.org/3/movie/603?api_key=0123456789ab&language=en-US'']) \<and>
   fetch_poster with_poster 603 ''0123456789ab'' =
     Inr (''https://image.tmdb.org/t/p/w500/a.jpg'',
          [''https://api.themoviedb.org/3/movie/603?api_key=0123456789ab&language=en-US''])"
proof -
  have u: "request_url 603 ''0123456789ab''
             = ''https://api.themoviedb.org/3/movie/603?api_key=0123456789ab&language=en-US''"
    by (simp add: request_url_def str_int_def str_nat.simps)
  have a: "fetch_poster with_poster (- 1) ''0123456789ab'' = Inr ([], [])"
    using fetch_poster_never_raises[of with_poster "- 1" "''0123456789ab''"] by simp
  have b: "fetch_poster with_poster 603 [] = Inr ([], [])"
    using fetch_poster_never_raises[of with_poster 603 "[]"] by simp
  have c: "fetch_poster offline 603 ''0123456789ab'' = Inr ([], [request_url 603 ''0123456789ab''])"
    using fetch_poster_never_raises[of offline 603 "''0123456789ab''"]
    by (simp add: offline_def)
  have d: "fetch_poster not_found 603 ''0123456789ab'' = Inr ([], [request_url 603 ''0123456789ab''])"
    using fetch_poster_never_raises[of not_found 603 "''0123456789ab''"]
    by (simp add: not_found_def)
  have e: "fetch_poster with_poster 603 ''0123456789ab'' =
     Inr (''https://image.tmdb.org/t/p/w500/a.jpg'', [request_url 603 ''0123456789ab''])"
    by (simp add: fetch_poster_def fetch_poster_try_def with_poster_def truthy_def)
  from a b c d e show ?thesis unfolding u by (intro conjI)
qed

subsection \<open>C8: a resolved label can be out of range\<close>

text \<open>
  C8.  On the filtered catalog the matrix is \<open>4 \<times> 4\<close> and the catalog has four rows,
  every row of the matrix has length four, and \<open>C\<close> is a title of the catalog; its label
  is 4, \<open>similarity[4]\<close> is out of range, and \<open>recommend_movie\<close> raises IndexError.
\<close>

theorem recommend_raises_index_error:
  "shape (similarity filtered_state) = (4, 4) \<and> wf_array (similarity filtered_state) \<and>
   n_rows (movies filtered_state) = 4 \<and> wf_frame (movies filtered_state) \<and>
   ''C'' \<in> set (df_title (movies filtered_state)) \<and>
   resolve_idx (movies filtered_state) ''C'' = Inr 4 \<and>
   recommend_movie filtered_state ''C'' 3 = Inl IndexError"
  by (simp add: eval_defs wf_frame_def wf_array_def shape_def filtered_state_def)

subsection \<open>C9: \<open>top_n = 0\<close> is not rejected\<close>

text \<open>
  C9.  \<open>top_n = 0\<close> is not rejected, and gives the empty list where line 120 finds its
  row (\<open>recommend_row_found_top_n_zero\<close>), as for \<open>A\<close> on the filtered catalog.  It does
  not for every title of the catalog: for \<open>C\<close> there, \<open>recommend_movie\<close> with
  \<open>top_n = 0\<close> raises IndexError.
\<close>

theorem recommend_top_n_zero_raises:
  "''C'' \<in> set (df_title (movies filtered_state)) \<and>
   recommend_movie filtered_state ''C'' 0 = Inl IndexError \<and>
   recommend_movie filtered_state ''A'' 0 = Inr []"
  by (simp add: eval_defs filtered_state_def)

subsection \<open>C10: the external id of a result\<close>



end
